theory Spec2Isabelle
  imports Main "HOL-Library.Mapping"
begin

section \<open>The GraphQL client of graphql.go\<close>

text \<open>
  The client of \<^verbatim>\<open>graphql.go\<close> is one straight-line method, \<^verbatim>\<open>Client.Do\<close>, with two
  entry points in front of it (\<^verbatim>\<open>Query\<close>, \<^verbatim>\<open>Mutate\<close>) and the \<^verbatim>\<open>errors\<close> type behind it.
  Everything \<^verbatim>\<open>Do\<close> calls lives outside the file: the JSON encoder and decoder and the HTTP
  machinery of the Go standard library, and the query constructors and payload decoders of
  the packages \<^verbatim>\<open>graphql\<close> and \<^verbatim>\<open>jsonutil\<close>. They are parameters of the model, collected in
  the record \<open>env\<close>; the HTTP client is a field of \<open>Client\<close>, as in the source.

  Go returns an \<^verbatim>\<open>error\<close> and writes through the pointer \<^verbatim>\<open>res\<close>. The model returns both: the
  error (\<open>None\<close> is \<^verbatim>\<open>nil\<close>) and the destination as it is left behind. It also returns the list
  of outside calls made, in order, so that statements about what is and is not attempted
  can be written down.
\<close>

subsection \<open>Data\<close>

type_synonym bytes = string

text \<open>The element type of \<^verbatim>\<open>errors\<close> (lines 108-114) and its \<^verbatim>\<open>Locations\<close> entries.\<close>

record location =
  Line :: int
  Column :: int

record gql_error =
  Message :: string
  Locations :: "location list"

type_synonym errors = "gql_error list"

text \<open>
  The anonymous struct \<^verbatim>\<open>in\<close> (lines 50-56). Its field tags are \<^verbatim>\<open>json:"query"\<close> and
  \<^verbatim>\<open>json:"variables,omitempty"\<close>.
\<close>

record 'v in_struct =
  Query :: string
  Variables :: "(string, 'v) mapping"

text \<open>The values the two fields of \<^verbatim>\<open>in\<close> hold, as members of a JSON object.\<close>

datatype 'v json_member = JString string | JObject "(string, 'v) mapping"

text \<open>
  The anonymous struct \<^verbatim>\<open>out\<close> (lines 76-80). \<^verbatim>\<open>Data\<close> is a \<^verbatim>\<open>*json.RawMessage\<close>: \<open>None\<close> is
  the nil pointer, which is what the decoder leaves for a missing key and for JSON null.
\<close>

record out_struct =
  Data :: "bytes option"
  Errors :: errors

text \<open>
  What the model keeps of \<^verbatim>\<open>http.Request\<close> and \<^verbatim>\<open>http.Response\<close>. The response body is a
  stream in Go, read either by \<^verbatim>\<open>io.ReadAll\<close> or by the JSON decoder; its type is left open.
\<close>

record 'ctx request =
  Method :: string
  URL :: string
  Header :: "string \<rightharpoonup> string list"
  ReqBody :: bytes
  Ctx :: 'ctx

record 'b response =
  StatusCode :: int
  Status :: string
  Body :: 'b

text \<open>The struct \<^verbatim>\<open>Client\<close> (lines 15-18); \<^verbatim>\<open>httpClient.Do\<close> is the transport.\<close>

record ('e, 'ctx, 'b) Client =
  url :: string
  httpClient :: "'ctx request \<Rightarrow> 'e + 'b response"

text \<open>
  The functions \<^verbatim>\<open>Do\<close>, \<^verbatim>\<open>Query\<close> and \<^verbatim>\<open>Mutate\<close> call from outside the file. \<open>'e\<close> is the type
  of the error values they return, \<open>'v\<close> the type of variable values, \<open>'s\<close> the type of the
  destination.
  \<^item> \<open>json_Encode\<close>: \<^verbatim>\<open>json.NewEncoder(&buf).Encode\<close>, given the members of the object to
    write; it fails on a value it cannot encode.
  \<^item> \<open>request_check\<close>: the checks of \<^verbatim>\<open>http.NewRequestWithContext\<close> on context, method and
    URL.
  \<^item> \<open>ReadAll\<close>: \<^verbatim>\<open>io.ReadAll\<close>, which returns what it has read together with an error.
  \<^item> \<open>Decode\<close>: \<^verbatim>\<open>json.NewDecoder(resp.Body).Decode(&out)\<close>.
  \<^item> \<open>UnmarshalGraphQL\<close>, \<open>MergeUnmarshalGraphQL\<close>: the decoders of \<^verbatim>\<open>jsonutil\<close>; they write
    into the destination and return an error or nil.
  \<^item> \<open>constructQuery\<close>, \<open>constructMutation\<close>: the document builders.
\<close>

record ('e, 'v, 'ctx, 'b, 's) env =
  json_Encode :: "(string \<times> 'v json_member) list \<Rightarrow> 'e + bytes"
  request_check :: "'ctx \<Rightarrow> string \<Rightarrow> string \<Rightarrow> 'e option"
  ReadAll :: "'b \<Rightarrow> bytes \<times> 'e option"
  Decode :: "'b \<Rightarrow> 'e + out_struct"
  UnmarshalGraphQL :: "bytes \<Rightarrow> 's \<Rightarrow> 's \<times> 'e option"
  MergeUnmarshalGraphQL :: "bytes \<Rightarrow> 's \<Rightarrow> 's \<times> 'e option"
  constructQuery :: "'s \<Rightarrow> (string, 'v) mapping \<Rightarrow> string"
  constructMutation :: "'s \<Rightarrow> (string, 'v) mapping \<Rightarrow> string"

text \<open>
  The error values \<^verbatim>\<open>Do\<close> returns, one constructor for each \<^verbatim>\<open>return\<close> of a non-nil error.
  The first three and the fifth and sixth wrap the \<^verbatim>\<open>err\<close> of the call that failed, unchanged
  (lines 60, 64, 69, 84, 95). \<open>StatusError\<close> is the \<^verbatim>\<open>fmt.Errorf\<close> of line 74, which formats
  \<^verbatim>\<open>resp.Status\<close> and the body read. \<open>ProtocolErrors\<close> is \<^verbatim>\<open>out.Errors\<close> returned as an \<^verbatim>\<open>error\<close>
  (line 99).
\<close>

datatype 'e go_error =
    EncodeError 'e
  | NewRequestError 'e
  | TransportError 'e
  | StatusError string bytes
  | EnvelopeDecodeError 'e
  | PayloadDecodeError 'e
  | ProtocolErrors errors

text \<open>The outside calls, as they are recorded.\<close>

datatype 'ctx call =
    CallEncode
  | CallNewRequest
  | CallTransport "'ctx request"
  | CallReadAll
  | CallDecode
  | CallUnmarshalGraphQL bytes
  | CallMergeUnmarshalGraphQL bytes

record ('e, 'ctx, 's) outcome =
  returned :: "'e go_error option"
  dest :: 's
  calls :: "'ctx call list"

subsection \<open>The errors type\<close>

datatype panic = IndexOutOfRange

text \<open>\<^verbatim>\<open>errors.Error\<close> (lines 117-119): \<^verbatim>\<open>e[0].Message\<close>, a run-time panic when \<^verbatim>\<open>e\<close> is empty.\<close>

definition errors_Error :: "errors \<Rightarrow> panic + string" where
  "errors_Error e = (if 0 < length e then Inr (Message (e ! 0)) else Inl IndexOutOfRange)"

text \<open>
  The end of \<^verbatim>\<open>Do\<close> (lines 98-101): the list itself is the error when it has an element,
  and nil is returned when it has none.
\<close>

definition errors_or_nil :: "errors \<Rightarrow> 'e go_error option" where
  "errors_or_nil es = (if 0 < length es then Some (ProtocolErrors es) else None)"

subsection \<open>The request\<close>

definition StatusOK :: int where
  "StatusOK = 200"

definition MethodPost :: string where
  "MethodPost = ''POST''"

text \<open>
  What the encoder writes for \<^verbatim>\<open>in\<close>: the member \<^verbatim>\<open>query\<close>, then the member \<^verbatim>\<open>variables\<close> unless
  the map is empty (\<^verbatim>\<open>omitempty\<close> drops a map of length 0, nil or not).
\<close>

definition in_members :: "'v in_struct \<Rightarrow> (string \<times> 'v json_member) list" where
  "in_members i =
     (''query'', JString (Query i)) #
     (if Mapping.is_empty (Variables i) then [] else [(''variables'', JObject (Variables i))])"

text \<open>
  \<^verbatim>\<open>http.NewRequestWithContext\<close>: an error of the checks, or a request with the method, URL,
  body and context given and no header yet.
\<close>

definition NewRequestWithContext ::
  "('e, 'v, 'ctx, 'b, 's) env \<Rightarrow> 'ctx \<Rightarrow> string \<Rightarrow> string \<Rightarrow> bytes \<Rightarrow> 'e + 'ctx request" where
  "NewRequestWithContext env ctx method u body =
     (case request_check env ctx method u of
        Some err \<Rightarrow> Inl err
      | None \<Rightarrow> Inr \<lparr>Method = method, URL = u, Header = Map.empty, ReqBody = body, Ctx = ctx\<rparr>)"

text \<open>\<^verbatim>\<open>req.Header.Set\<close>: the key now holds exactly the one value.\<close>

definition Header_Set :: "'ctx request \<Rightarrow> string \<Rightarrow> string \<Rightarrow> 'ctx request" where
  "Header_Set req k v = req\<lparr>Header := (Header req)(k \<mapsto> [v])\<rparr>"

subsection \<open>Do, Query and Mutate\<close>

text \<open>\<open>called c r\<close> puts the call \<open>c\<close> in front of what \<open>r\<close> goes on to do.\<close>

definition called :: "'ctx call \<Rightarrow> ('e, 'ctx, 's) outcome \<Rightarrow> ('e, 'ctx, 's) outcome" where
  "called c r = r\<lparr>calls := c # calls r\<rparr>"

definition return :: "'e go_error option \<Rightarrow> 's \<Rightarrow> ('e, 'ctx, 's) outcome" where
  "return err res = \<lparr>returned = err, dest = res, calls = []\<rparr>"

text \<open>
  \<^verbatim>\<open>Client.Do\<close> (lines 49-102). Each \<open>case\<close> is one \<^verbatim>\<open>if err != nil { return err }\<close>; the
  deferred \<^verbatim>\<open>resp.Body.Close()\<close> has no part in the result.
\<close>

definition Client_Do ::
  "('e, 'v, 'ctx, 'b, 's) env \<Rightarrow> ('e, 'ctx, 'b) Client \<Rightarrow> 'ctx \<Rightarrow> string \<Rightarrow> 's \<Rightarrow> bool \<Rightarrow>
   (string, 'v) mapping \<Rightarrow> ('e, 'ctx, 's) outcome" where
  "Client_Do env c ctx query res merge variables =
     (let inp = \<lparr>Query = query, Variables = variables\<rparr> in
      called CallEncode
       (case json_Encode env (in_members inp) of
          Inl err \<Rightarrow> return (Some (EncodeError err)) res
        | Inr buf \<Rightarrow>
      called CallNewRequest
       (case NewRequestWithContext env ctx MethodPost (url c) buf of
          Inl err \<Rightarrow> return (Some (NewRequestError err)) res
        | Inr req0 \<Rightarrow>
      let req = Header_Set req0 ''Content-Type'' ''application/json'' in
      called (CallTransport req)
       (case httpClient c req of
          Inl err \<Rightarrow> return (Some (TransportError err)) res
        | Inr resp \<Rightarrow>
      if StatusCode resp \<noteq> StatusOK then
        called CallReadAll
         (let body = fst (ReadAll env (Body resp)) in
          return (Some (StatusError (Status resp) body)) res)
      else
      called CallDecode
       (case Decode env (Body resp) of
          Inl err \<Rightarrow> return (Some (EnvelopeDecodeError err)) res
        | Inr out \<Rightarrow>
      (case Data out of
         Some d \<Rightarrow>
           if merge then
             called (CallMergeUnmarshalGraphQL d)
              (case MergeUnmarshalGraphQL env d res of
                 (res', Some err) \<Rightarrow> return (Some (PayloadDecodeError err)) res'
               | (res', None) \<Rightarrow> return (errors_or_nil (Errors out)) res')
           else
             called (CallUnmarshalGraphQL d)
              (case UnmarshalGraphQL env d res of
                 (res', Some err) \<Rightarrow> return (Some (PayloadDecodeError err)) res'
               | (res', None) \<Rightarrow> return (errors_or_nil (Errors out)) res')
       | None \<Rightarrow> return (errors_or_nil (Errors out)) res))))))"

text \<open>\<^verbatim>\<open>Client.Query\<close> (lines 35-38) and \<^verbatim>\<open>Client.Mutate\<close> (lines 43-46).\<close>

definition Client_Query ::
  "('e, 'v, 'ctx, 'b, 's) env \<Rightarrow> ('e, 'ctx, 'b) Client \<Rightarrow> 'ctx \<Rightarrow> 's \<Rightarrow> (string, 'v) mapping \<Rightarrow>
   ('e, 'ctx, 's) outcome" where
  "Client_Query env c ctx q variables =
     (let query = constructQuery env q variables in
      Client_Do env c ctx query q False variables)"

definition Client_Mutate ::
  "('e, 'v, 'ctx, 'b, 's) env \<Rightarrow> ('e, 'ctx, 'b) Client \<Rightarrow> 'ctx \<Rightarrow> 's \<Rightarrow> (string, 'v) mapping \<Rightarrow>
   ('e, 'ctx, 's) outcome" where
  "Client_Mutate env c ctx m variables =
     (let mutation = constructMutation env m variables in
      Client_Do env c ctx mutation m False variables)"

text \<open>
  \<^verbatim>\<open>NewClient\<close> (lines 22-30): \<open>None\<close> is a nil \<^verbatim>\<open>httpClient\<close>, replaced by
  \<^verbatim>\<open>http.DefaultClient\<close>.
\<close>

definition NewClient ::
  "('ctx request \<Rightarrow> 'e + 'b response) \<Rightarrow> string \<Rightarrow> ('ctx request \<Rightarrow> 'e + 'b response) option \<Rightarrow>
   ('e, 'ctx, 'b) Client" where
  "NewClient DefaultClient u hc =
     (let hc' = (case hc of None \<Rightarrow> DefaultClient | Some h \<Rightarrow> h) in
      \<lparr>url = u, httpClient = hc'\<rparr>)"

subsection \<open>Reading the record of calls\<close>

text \<open>The requests handed to the transport, in order.\<close>

fun transported :: "'ctx call list \<Rightarrow> 'ctx request list" where
  "transported [] = []"
| "transported (CallTransport r # cs) = r # transported cs"
| "transported (_ # cs) = transported cs"

text \<open>
  Two shorthands for the statements below. \<open>content_type_json req0\<close> is the request after
  line 66. \<open>answered\<close> says that \<^verbatim>\<open>Do\<close> got as far as a response: the encoder wrote \<open>buf\<close>,
  the request \<open>req0\<close> was built from it, and the transport answered \<open>resp\<close>.
\<close>

abbreviation content_type_json :: "'ctx request \<Rightarrow> 'ctx request" where
  "content_type_json req0 \<equiv> Header_Set req0 ''Content-Type'' ''application/json''"

abbreviation answered ::
  "('e, 'v, 'ctx, 'b, 's) env \<Rightarrow> ('e, 'ctx, 'b) Client \<Rightarrow> 'ctx \<Rightarrow> string \<Rightarrow>
   (string, 'v) mapping \<Rightarrow> bytes \<Rightarrow> 'ctx request \<Rightarrow> 'b response \<Rightarrow> bool" where
  "answered env c ctx query variables buf req0 resp \<equiv>
     json_Encode env (in_members \<lparr>Query = query, Variables = variables\<rparr>) = Inr buf \<and>
     NewRequestWithContext env ctx MethodPost (url c) buf = Inr req0 \<and>
     httpClient c (content_type_json req0) = Inr resp"

section \<open>A canned server\<close>

text \<open>
  Concrete inputs for the instances below: a transport that answers every request with
  one fixed response, and outside functions given by small tables. The destination is a
  pair of strings, the members \<^verbatim>\<open>login\<close> and \<^verbatim>\<open>bio\<close> of a struct; errors are their messages.
\<close>

definition payload_login :: bytes where
  \<open>payload_login = ''{"login":"octocat"}''\<close>

definition payload_mismatch :: bytes where
  \<open>payload_mismatch = ''{"login":42}''\<close>

definition body_ok :: bytes where
  \<open>body_ok = ''{"data":{"login":"octocat"}}''\<close>

definition body_partial :: bytes where
  \<open>body_partial = ''{"data":{"login":"octocat"},"errors":[{"message":"x"},{"message":"y"}]}''\<close>

definition body_mismatch :: bytes where
  \<open>body_mismatch = ''{"data":{"login":42},"errors":[{"message":"x"}]}''\<close>

definition body_errors_only :: bytes where
  \<open>body_errors_only = ''{"errors":[{"message":"x"},{"message":"y"}]}''\<close>

definition body_null_data :: bytes where
  \<open>body_null_data = ''{"data":null}''\<close>

definition body_html :: bytes where
  \<open>body_html = ''<html>Bad Gateway</html>''\<close>

definition err_x :: gql_error where
  "err_x = \<lparr>Message = ''x'', Locations = []\<rparr>"

definition err_y :: gql_error where
  "err_y = \<lparr>Message = ''y'', Locations = []\<rparr>"

definition canned_Decode :: "bytes \<Rightarrow> string + out_struct" where
  "canned_Decode b =
     (if b = body_ok then Inr \<lparr>Data = Some payload_login, Errors = []\<rparr>
      else if b = body_partial then Inr \<lparr>Data = Some payload_login, Errors = [err_x, err_y]\<rparr>
      else if b = body_mismatch then Inr \<lparr>Data = Some payload_mismatch, Errors = [err_x]\<rparr>
      else if b = body_errors_only then Inr \<lparr>Data = None, Errors = [err_x, err_y]\<rparr>
      else if b = body_null_data then Inr \<lparr>Data = None, Errors = []\<rparr>
      else Inl ''invalid character'')"

definition canned_Unmarshal :: "bytes \<Rightarrow> string \<times> string \<Rightarrow> (string \<times> string) \<times> string option" where
  "canned_Unmarshal d s =
     (if d = payload_login then ((''octocat'', []), None)
      else (s, Some ''cannot unmarshal number into string''))"

definition canned_MergeUnmarshal ::
  "bytes \<Rightarrow> string \<times> string \<Rightarrow> (string \<times> string) \<times> string option" where
  "canned_MergeUnmarshal d s =
     (if d = payload_login then ((''octocat'', snd s), None)
      else (s, Some ''cannot unmarshal number into string''))"

text \<open>The encoder refuses a variable named \<^verbatim>\<open>chan\<close>, as the real one refuses a channel.\<close>

fun unencodable :: "string json_member \<Rightarrow> bool" where
  "unencodable (JString s) = False"
| "unencodable (JObject m) = (Mapping.lookup m ''chan'' \<noteq> None)"

definition canned_Encode :: "(string \<times> string json_member) list \<Rightarrow> string + bytes" where
  "canned_Encode ms =
     (if list_ex (\<lambda>m. unencodable (snd m)) ms then Inl ''unsupported type''
      else Inr (concat (map (\<lambda>m. fst m @ '';'') ms)))"

definition canned_env :: "(string, string, unit, bytes, string \<times> string) env" where
  "canned_env =
     \<lparr>json_Encode = canned_Encode,
      request_check = (\<lambda>ctx method u. if u = [] then Some ''empty url'' else None),
      ReadAll = (\<lambda>b. (b, None)),
      Decode = canned_Decode,
      UnmarshalGraphQL = canned_Unmarshal,
      MergeUnmarshalGraphQL = canned_MergeUnmarshal,
      constructQuery = (\<lambda>q vs. ''{login,bio}''),
      constructMutation = (\<lambda>m vs. ''mutation{login,bio}'')\<rparr>"

definition canned_client :: "int \<Rightarrow> string \<Rightarrow> bytes \<Rightarrow> (string, unit, bytes) Client" where
  "canned_client code text body =
     \<lparr>url = ''http://localhost/graphql'',
      httpClient = (\<lambda>req. Inr \<lparr>StatusCode = code, Status = text, Body = body\<rparr>)\<rparr>"

definition refusing_client :: "(string, unit, bytes) Client" where
  "refusing_client =
     \<lparr>url = ''http://localhost/graphql'', httpClient = (\<lambda>req. Inl ''connection refused'')\<rparr>"

definition canned_request :: "bytes \<Rightarrow> unit request" where
  "canned_request buf =
     \<lparr>Method = ''POST'', URL = ''http://localhost/graphql'',
      Header = [''Content-Type'' \<mapsto> [''application/json'']], ReqBody = buf, Ctx = ()\<rparr>"

section \<open>Properties\<close>

subsection \<open>Each way through Do\<close>

lemma outcome_called_return:
  "called c (return e s) = \<lparr>returned = e, dest = s, calls = [c]\<rparr>"
  by (simp add: called_def return_def)

lemma called_outcome:
  "called c \<lparr>returned = e, dest = s, calls = cs\<rparr> = \<lparr>returned = e, dest = s, calls = c # cs\<rparr>"
  by (simp add: called_def)




lemma Do_status_error:
  assumes "json_Encode env (in_members \<lparr>Query = query, Variables = variables\<rparr>) = Inr buf"
    and "NewRequestWithContext env ctx MethodPost (url c) buf = Inr req0"
    and "httpClient c (content_type_json req0) = Inr resp"
    and "StatusCode resp \<noteq> StatusOK"
  shows "Client_Do env c ctx query res merge variables =
           \<lparr>returned = Some (StatusError (Status resp) (fst (ReadAll env (Body resp)))),
            dest = res,
            calls = [CallEncode, CallNewRequest,
                     CallTransport (content_type_json req0),
                     CallReadAll]\<rparr>"
  using assms by (simp add: Client_Do_def outcome_called_return called_outcome)

lemma Do_envelope_error:
  assumes "json_Encode env (in_members \<lparr>Query = query, Variables = variables\<rparr>) = Inr buf"
    and "NewRequestWithContext env ctx MethodPost (url c) buf = Inr req0"
    and "httpClient c (content_type_json req0) = Inr resp"
    and "StatusCode resp = StatusOK"
    and "Decode env (Body resp) = Inl err"
  shows "Client_Do env c ctx query res merge variables =
           \<lparr>returned = Some (EnvelopeDecodeError err), dest = res,
            calls = [CallEncode, CallNewRequest,
                     CallTransport (content_type_json req0),
                     CallDecode]\<rparr>"
  using assms by (simp add: Client_Do_def outcome_called_return called_outcome)

lemma Do_no_data:
  assumes "json_Encode env (in_members \<lparr>Query = query, Variables = variables\<rparr>) = Inr buf"
    and "NewRequestWithContext env ctx MethodPost (url c) buf = Inr req0"
    and "httpClient c (content_type_json req0) = Inr resp"
    and "StatusCode resp = StatusOK"
    and "Decode env (Body resp) = Inr out"
    and "Data out = None"
  shows "Client_Do env c ctx query res merge variables =
           \<lparr>returned = errors_or_nil (Errors out), dest = res,
            calls = [CallEncode, CallNewRequest,
                     CallTransport (content_type_json req0),
                     CallDecode]\<rparr>"
  using assms by (simp add: Client_Do_def outcome_called_return called_outcome)

lemma Do_replace:
  assumes "json_Encode env (in_members \<lparr>Query = query, Variables = variables\<rparr>) = Inr buf"
    and "NewRequestWithContext env ctx MethodPost (url c) buf = Inr req0"
    and "httpClient c (content_type_json req0) = Inr resp"
    and "StatusCode resp = StatusOK"
    and "Decode env (Body resp) = Inr out"
    and "Data out = Some d"
    and "UnmarshalGraphQL env d res = (res', derr)"
  shows "Client_Do env c ctx query res False variables =
           \<lparr>returned = (case derr of Some e \<Rightarrow> Some (PayloadDecodeError e)
                         | None \<Rightarrow> errors_or_nil (Errors out)),
            dest = res',
            calls = [CallEncode, CallNewRequest,
                     CallTransport (content_type_json req0),
                     CallDecode, CallUnmarshalGraphQL d]\<rparr>"
  using assms
  by (cases derr) (simp_all add: Client_Do_def outcome_called_return called_outcome)

lemma Do_merge:
  assumes "json_Encode env (in_members \<lparr>Query = query, Variables = variables\<rparr>) = Inr buf"
    and "NewRequestWithContext env ctx MethodPost (url c) buf = Inr req0"
    and "httpClient c (content_type_json req0) = Inr resp"
    and "StatusCode resp = StatusOK"
    and "Decode env (Body resp) = Inr out"
    and "Data out = Some d"
    and "MergeUnmarshalGraphQL env d res = (res', derr)"
  shows "Client_Do env c ctx query res True variables =
           \<lparr>returned = (case derr of Some e \<Rightarrow> Some (PayloadDecodeError e)
                         | None \<Rightarrow> errors_or_nil (Errors out)),
            dest = res',
            calls = [CallEncode, CallNewRequest,
                     CallTransport (content_type_json req0),
                     CallDecode, CallMergeUnmarshalGraphQL d]\<rparr>"
  using assms
  by (cases derr) (simp_all add: Client_Do_def outcome_called_return called_outcome)

lemma Do_data:
  assumes "answered env c ctx query variables buf req0 resp"
    and "StatusCode resp = StatusOK"
    and "Decode env (Body resp) = Inr out"
    and "Data out = Some d"
    and "(if merge then MergeUnmarshalGraphQL env d res else UnmarshalGraphQL env d res) = (res', derr)"
  shows "Client_Do env c ctx query res merge variables =
           \<lparr>returned = (case derr of Some e \<Rightarrow> Some (PayloadDecodeError e)
                         | None \<Rightarrow> errors_or_nil (Errors out)),
            dest = res',
            calls = [CallEncode, CallNewRequest, CallTransport (content_type_json req0),
                     CallDecode,
                     if merge then CallMergeUnmarshalGraphQL d else CallUnmarshalGraphQL d]\<rparr>"
proof (cases merge)
  case True
  with assms show ?thesis using Do_merge [of env query variables buf ctx c req0 resp out d res res' derr]
    by simp
next
  case False
  with assms show ?thesis using Do_replace [of env query variables buf ctx c req0 resp out d res res' derr]
    by simp
qed

subsection \<open>Facts about every run\<close>

lemmas do_unfold = Client_Do_def called_def return_def Let_def


lemma Do_transported_request:
  assumes "r \<in> set (transported (calls (Client_Do env c ctx query res merge variables)))"
  shows "Method r = ''POST'' \<and> URL r = url c \<and>
         Header r ''Content-Type'' = Some [''application/json''] \<and>
         json_Encode env (in_members \<lparr>Query = query, Variables = variables\<rparr>) = Inr (ReqBody r)"
  using assms
  by (auto simp add: do_unfold NewRequestWithContext_def Header_Set_def MethodPost_def
      split: sum.splits option.splits prod.splits if_splits)

lemma Do_aggregate_nonempty:
  assumes "returned (Client_Do env c ctx query res merge variables) = Some (ProtocolErrors es)"
  shows "0 < length es"
  using assms
  by (auto simp add: do_unfold errors_or_nil_def
      split: sum.splits option.splits prod.splits if_splits)

lemma Do_decoder_mode:
  "(CallMergeUnmarshalGraphQL d \<in> set (calls (Client_Do env c ctx query res merge variables))
      \<longrightarrow> merge) \<and>
   (CallUnmarshalGraphQL d \<in> set (calls (Client_Do env c ctx query res merge variables))
      \<longrightarrow> \<not> merge)"
  by (auto simp add: do_unfold
      split: sum.splits option.splits prod.splits if_splits)


subsection \<open>Unfolding for concrete runs\<close>

lemmas canned_defs = canned_env_def canned_client_def refusing_client_def canned_Decode_def
  canned_Unmarshal_def canned_MergeUnmarshal_def canned_Encode_def canned_request_def
  payload_login_def payload_mismatch_def body_ok_def body_partial_def body_mismatch_def
  body_errors_only_def body_null_data_def body_html_def

lemmas run_defs = Client_Do_def Client_Query_def Client_Mutate_def in_members_def
  NewRequestWithContext_def Header_Set_def called_def return_def errors_or_nil_def
  MethodPost_def StatusOK_def Let_def

section \<open>The claims\<close>

text \<open>
  C1, as the code has it. When the envelope holds a data payload and a non-empty list of
  errors, and the decoder chosen by \<^verbatim>\<open>merge\<close> accepts the payload, \<^verbatim>\<open>Do\<close> calls that decoder,
  leaves the destination as the decoder wrote it, and returns the list of errors as one
  error. The caller sees both the filled destination and the error.
\<close>

theorem C1_partial_success:
  assumes "answered env c ctx query variables buf req0 resp"
    and "StatusCode resp = StatusOK"
    and "Decode env (Body resp) = Inr out"
    and "Data out = Some d"
    and "Errors out \<noteq> []"
    and "(if merge then MergeUnmarshalGraphQL env d res else UnmarshalGraphQL env d res) = (res', None)"
  shows "returned (Client_Do env c ctx query res merge variables) = Some (ProtocolErrors (Errors out)) \<and>
         dest (Client_Do env c ctx query res merge variables) = res' \<and>
         (if merge then CallMergeUnmarshalGraphQL d else CallUnmarshalGraphQL d)
           \<in> set (calls (Client_Do env c ctx query res merge variables))"
  using Do_data [OF assms(1-4) assms(6)] assms(5)
  by (simp add: errors_or_nil_def)

text \<open>The partial success of the canned server: \<^verbatim>\<open>login\<close> is filled and both errors come back.\<close>

theorem C1_partial_success_witness:
  "returned (Client_Do canned_env (canned_client 200 ''200 OK'' body_partial) ()
              ''{login,bio}'' (''a'', ''b'') False Mapping.empty)
     = Some (ProtocolErrors [err_x, err_y]) \<and>
   dest (Client_Do canned_env (canned_client 200 ''200 OK'' body_partial) ()
              ''{login,bio}'' (''a'', ''b'') False Mapping.empty)
     = (''octocat'', [])"
  using C1_partial_success [where env = canned_env
      and c = "canned_client 200 ''200 OK'' body_partial" and ctx = "()"
      and query = "''{login,bio}''" and variables = Mapping.empty and buf = "''query;''"
      and ?req0.0 = "\<lparr>Method = ''POST'', URL = ''http://localhost/graphql'', Header = Map.empty,
                   ReqBody = ''query;'', Ctx = ()\<rparr>"
      and resp = "\<lparr>StatusCode = 200, Status = ''200 OK'', Body = body_partial\<rparr>"
      and out = "\<lparr>Data = Some payload_login, Errors = [err_x, err_y]\<rparr>"
      and d = payload_login and merge = False and res = "(''a'', ''b'')"
      and res' = "(''octocat'', [])"]
  by (simp add: run_defs canned_defs)

text \<open>
  C1 as it is worded, for every envelope with data and errors, fails where the decoder
  rejects the payload: the envelope holds a payload and one error, and \<^verbatim>\<open>Do\<close> returns the
  decoder's error (line 95), not the list.
\<close>

theorem C1_counterexample:
  "Decode canned_env body_mismatch = Inr \<lparr>Data = Some payload_mismatch, Errors = [err_x]\<rparr> \<and>
   returned (Client_Do canned_env (canned_client 200 ''200 OK'' body_mismatch) ()
              ''{login,bio}'' (''a'', ''b'') False Mapping.empty)
     = Some (PayloadDecodeError ''cannot unmarshal number into string'') \<and>
   returned (Client_Do canned_env (canned_client 200 ''200 OK'' body_mismatch) ()
              ''{login,bio}'' (''a'', ''b'') False Mapping.empty)
     \<noteq> Some (ProtocolErrors [err_x])"
  by (simp add: run_defs canned_defs)

text \<open>
  C2. For every non-empty list of protocol errors, the message of the aggregate error (what
  its \<^verbatim>\<open>Error\<close> method returns) is the message of the first element, and the error returned
  is the list itself, so its length and entries are those of the list. In particular the
  list of the two errors with messages \<^verbatim>\<open>x\<close> and \<^verbatim>\<open>y\<close> has the message \<^verbatim>\<open>x\<close> and keeps its two
  entries.
\<close>

theorem C2_primary_message:
  "(es \<noteq> [] \<longrightarrow>
      errors_Error es = Inr (Message (hd es)) \<and>
      (errors_or_nil es :: 'e go_error option) = Some (ProtocolErrors es)) \<and>
   errors_Error [\<lparr>Message = ''x'', Locations = []\<rparr>, \<lparr>Message = ''y'', Locations = []\<rparr>] = Inr ''x'' \<and>
   (errors_or_nil [\<lparr>Message = ''x'', Locations = []\<rparr>, \<lparr>Message = ''y'', Locations = []\<rparr>]
      :: 'e go_error option) =
     Some (ProtocolErrors [\<lparr>Message = ''x'', Locations = []\<rparr>, \<lparr>Message = ''y'', Locations = []\<rparr>]) \<and>
   length [\<lparr>Message = ''x'', Locations = []\<rparr>, \<lparr>Message = ''y'', Locations = []\<rparr>] = 2"
  by (cases es) (simp_all add: errors_Error_def errors_or_nil_def)

text \<open>The general part of C2 at a list of three.\<close>

theorem C2_primary_message_witness:
  "errors_Error [err_y, err_x, err_x] = Inr ''y'' \<and>
   (errors_or_nil [err_y, err_x, err_x] :: string go_error option) =
     Some (ProtocolErrors [err_y, err_x, err_x])"
  using C2_primary_message [where ?'e = string and es = "[err_y, err_x, err_x]"]
  by (simp add: err_y_def)

text \<open>
  C3. An empty list of errors never becomes an error: when the envelope's list is empty
  and the payload, if there is one, is decoded without error, \<^verbatim>\<open>Do\<close> returns nil. And
  whenever \<^verbatim>\<open>Do\<close> returns a list of errors as its error, on any input, the list has an
  element, so \<^verbatim>\<open>Error\<close> reads \<^verbatim>\<open>e[0]\<close> in range and returns its message.
\<close>

theorem C3_empty_list_no_aggregate:
  "(answered env c ctx query variables buf req0 resp \<and>
    StatusCode resp = StatusOK \<and>
    Decode env (Body resp) = Inr out \<and>
    Errors out = [] \<and>
    (case Data out of
       None \<Rightarrow> True
     | Some d \<Rightarrow>
         snd (if merge then MergeUnmarshalGraphQL env d res else UnmarshalGraphQL env d res) = None)
    \<longrightarrow> returned (Client_Do env c ctx query res merge variables) = None) \<and>
   (\<forall>es. returned (Client_Do env c ctx query res merge variables) = Some (ProtocolErrors es)
      \<longrightarrow> es \<noteq> [] \<and> errors_Error es = Inr (Message (es ! 0)))"
proof (intro conjI impI allI)
  assume h: "answered env c ctx query variables buf req0 resp \<and>
    StatusCode resp = StatusOK \<and>
    Decode env (Body resp) = Inr out \<and>
    Errors out = [] \<and>
    (case Data out of
       None \<Rightarrow> True
     | Some d \<Rightarrow>
         snd (if merge then MergeUnmarshalGraphQL env d res else UnmarshalGraphQL env d res) = None)"
  show "returned (Client_Do env c ctx query res merge variables) = None"
  proof (cases "Data out")
    case None
    with h show ?thesis
      using Do_no_data [of env query variables buf ctx c req0 resp out res merge]
      by (simp add: errors_or_nil_def)
  next
    case (Some d)
    obtain res' derr where
      r: "(if merge then MergeUnmarshalGraphQL env d res else UnmarshalGraphQL env d res) = (res', derr)"
      by (cases "if merge then MergeUnmarshalGraphQL env d res else UnmarshalGraphQL env d res")
    with h Some have "derr = None" by simp
    with h Some r show ?thesis
      using Do_data [of env query variables buf ctx c req0 resp out d merge res res' derr]
      by (simp add: errors_or_nil_def)
  qed
next
  fix es
  assume "returned (Client_Do env c ctx query res merge variables) = Some (ProtocolErrors es)"
  then have "0 < length es" by (rule Do_aggregate_nonempty)
  then show "es \<noteq> []" and "errors_Error es = Inr (Message (es ! 0))"
    by (simp_all add: errors_Error_def)
qed

text \<open>C3 at a clean response, and at a response that carries two errors.\<close>

theorem C3_empty_list_no_aggregate_witness:
  "returned (Client_Do canned_env (canned_client 200 ''200 OK'' body_ok) ()
              ''{login,bio}'' (''a'', ''b'') False Mapping.empty) = None \<and>
   returned (Client_Do canned_env (canned_client 200 ''200 OK'' body_errors_only) ()
              ''{login,bio}'' (''a'', ''b'') False Mapping.empty)
     = Some (ProtocolErrors [err_x, err_y]) \<and>
   errors_Error [err_x, err_y] = Inr ''x''"
  using C3_empty_list_no_aggregate [where env = canned_env
      and c = "canned_client 200 ''200 OK'' body_ok" and ctx = "()"
      and query = "''{login,bio}''" and variables = Mapping.empty and buf = "''query;''"
      and ?req0.0 = "\<lparr>Method = ''POST'', URL = ''http://localhost/graphql'', Header = Map.empty,
                   ReqBody = ''query;'', Ctx = ()\<rparr>"
      and resp = "\<lparr>StatusCode = 200, Status = ''200 OK'', Body = body_ok\<rparr>"
      and out = "\<lparr>Data = Some payload_login, Errors = []\<rparr>"
      and merge = False and res = "(''a'', ''b'')"]
    C3_empty_list_no_aggregate [where env = canned_env
      and c = "canned_client 200 ''200 OK'' body_errors_only" and ctx = "()"
      and query = "''{login,bio}''" and variables = Mapping.empty
      and merge = False and res = "(''a'', ''b'')"]
  by (simp add: run_defs canned_defs err_x_def)

text \<open>
  C4, as the code has it. The test of line 72 is against 200 alone. For every response
  whose status code is not 200, \<^verbatim>\<open>Do\<close> returns the error made of the status text and the
  body read, leaves the destination alone and never calls the envelope decoder. For status
  code 200 the next call is the envelope decoder, and no status error is returned.
\<close>

theorem C4_status_200_only:
  assumes "answered env c ctx query variables buf req0 resp"
  shows "(StatusCode resp \<noteq> 200 \<longrightarrow>
            Client_Do env c ctx query res merge variables =
              \<lparr>returned = Some (StatusError (Status resp) (fst (ReadAll env (Body resp)))),
               dest = res,
               calls = [CallEncode, CallNewRequest, CallTransport (content_type_json req0),
                        CallReadAll]\<rparr>) \<and>
         (StatusCode resp = 200 \<longrightarrow>
            take 4 (calls (Client_Do env c ctx query res merge variables)) =
              [CallEncode, CallNewRequest, CallTransport (content_type_json req0), CallDecode] \<and>
            (\<forall>s b. returned (Client_Do env c ctx query res merge variables)
                     \<noteq> Some (StatusError s b)))"
proof (intro conjI impI)
  assume "StatusCode resp \<noteq> 200"
  with assms show "Client_Do env c ctx query res merge variables =
              \<lparr>returned = Some (StatusError (Status resp) (fst (ReadAll env (Body resp)))),
               dest = res,
               calls = [CallEncode, CallNewRequest, CallTransport (content_type_json req0),
                        CallReadAll]\<rparr>"
    using Do_status_error [of env query variables buf ctx c req0 resp res merge]
    by (simp add: StatusOK_def)
next
  assume "StatusCode resp = 200"
  with assms show "take 4 (calls (Client_Do env c ctx query res merge variables)) =
              [CallEncode, CallNewRequest, CallTransport (content_type_json req0), CallDecode]"
    by (simp add: do_unfold StatusOK_def split: sum.split option.split prod.split)
next
  assume "StatusCode resp = 200"
  with assms show "\<forall>s b. returned (Client_Do env c ctx query res merge variables)
                     \<noteq> Some (StatusError s b)"
    by (simp add: do_unfold StatusOK_def errors_or_nil_def split: sum.split option.split prod.split)
qed

text \<open>C4 at a 404 and at a 200.\<close>

theorem C4_status_200_only_witness:
  "Client_Do canned_env (canned_client 404 ''404 Not Found'' body_html) ()
       ''{login,bio}'' (''a'', ''b'') False Mapping.empty
     = \<lparr>returned = Some (StatusError ''404 Not Found'' body_html), dest = (''a'', ''b''),
        calls = [CallEncode, CallNewRequest, CallTransport (canned_request ''query;''),
                 CallReadAll]\<rparr> \<and>
   take 4 (calls (Client_Do canned_env (canned_client 200 ''200 OK'' body_ok) ()
       ''{login,bio}'' (''a'', ''b'') False Mapping.empty))
     = [CallEncode, CallNewRequest, CallTransport (canned_request ''query;''), CallDecode]"
  using C4_status_200_only [where env = canned_env
      and c = "canned_client 404 ''404 Not Found'' body_html" and ctx = "()"
      and query = "''{login,bio}''" and variables = Mapping.empty and buf = "''query;''"
      and ?req0.0 = "\<lparr>Method = ''POST'', URL = ''http://localhost/graphql'', Header = Map.empty,
                   ReqBody = ''query;'', Ctx = ()\<rparr>"
      and resp = "\<lparr>StatusCode = 404, Status = ''404 Not Found'', Body = body_html\<rparr>"
      and merge = False and res = "(''a'', ''b'')"]
    C4_status_200_only [where env = canned_env
      and c = "canned_client 200 ''200 OK'' body_ok" and ctx = "()"
      and query = "''{login,bio}''" and variables = Mapping.empty and buf = "''query;''"
      and ?req0.0 = "\<lparr>Method = ''POST'', URL = ''http://localhost/graphql'', Header = Map.empty,
                   ReqBody = ''query;'', Ctx = ()\<rparr>"
      and resp = "\<lparr>StatusCode = 200, Status = ''200 OK'', Body = body_ok\<rparr>"
      and merge = False and res = "(''a'', ''b'')"]
  by (simp add: run_defs canned_defs)

text \<open>
  C4 as it is worded says that every 2xx status goes on to envelope decoding. 201 is a
  2xx status; the server answers 201 with a well-formed envelope, and \<^verbatim>\<open>Do\<close> returns the
  status error without calling the envelope decoder.
\<close>

theorem C4_counterexample:
  "StatusCode \<lparr>StatusCode = 201, Status = ''201 Created'', Body = body_ok\<rparr> div 100 = 2 \<and>
   httpClient (canned_client 201 ''201 Created'' body_ok) (canned_request ''query;'')
     = Inr \<lparr>StatusCode = 201, Status = ''201 Created'', Body = body_ok\<rparr> \<and>
   Client_Do canned_env (canned_client 201 ''201 Created'' body_ok) ()
       ''{login,bio}'' (''a'', ''b'') False Mapping.empty
     = \<lparr>returned = Some (StatusError ''201 Created'' body_ok), dest = (''a'', ''b''),
        calls = [CallEncode, CallNewRequest, CallTransport (canned_request ''query;''),
                 CallReadAll]\<rparr>"
  by (simp add: run_defs canned_defs)

text \<open>
  C5. After a response with status 200: when the JSON decoder cannot fill the envelope,
  \<^verbatim>\<open>Do\<close> returns that decoder's error, the destination is as it was, and no payload decoder
  has been called. When the envelope is filled, \<^verbatim>\<open>Do\<close> does not return an envelope error;
  a payload the payload decoder rejects gives that decoder's error instead.
\<close>

theorem C5_envelope_decode_error:
  assumes "answered env c ctx query variables buf req0 resp"
    and "StatusCode resp = StatusOK"
  shows "(Decode env (Body resp) = Inl err \<longrightarrow>
            Client_Do env c ctx query res merge variables =
              \<lparr>returned = Some (EnvelopeDecodeError err), dest = res,
               calls = [CallEncode, CallNewRequest, CallTransport (content_type_json req0),
                        CallDecode]\<rparr>) \<and>
         (Decode env (Body resp) = Inr out \<longrightarrow>
            (\<forall>e. returned (Client_Do env c ctx query res merge variables)
                   \<noteq> Some (EnvelopeDecodeError e)) \<and>
            (\<forall>d res' e.
               Data out = Some d \<and>
               (if merge then MergeUnmarshalGraphQL env d res else UnmarshalGraphQL env d res)
                 = (res', Some e) \<longrightarrow>
               returned (Client_Do env c ctx query res merge variables)
                 = Some (PayloadDecodeError e)))"
proof (intro conjI impI allI)
  assume "Decode env (Body resp) = Inl err"
  with assms show "Client_Do env c ctx query res merge variables =
              \<lparr>returned = Some (EnvelopeDecodeError err), dest = res,
               calls = [CallEncode, CallNewRequest, CallTransport (content_type_json req0),
                        CallDecode]\<rparr>"
    using Do_envelope_error [of env query variables buf ctx c req0 resp err res merge]
    by simp
next
  fix e
  assume "Decode env (Body resp) = Inr out"
  with assms show "returned (Client_Do env c ctx query res merge variables)
                   \<noteq> Some (EnvelopeDecodeError e)"
    by (simp add: do_unfold errors_or_nil_def split: sum.split option.split prod.split)
next
  fix d res' e
  assume "Decode env (Body resp) = Inr out"
    and "Data out = Some d \<and>
               (if merge then MergeUnmarshalGraphQL env d res else UnmarshalGraphQL env d res)
                 = (res', Some e)"
  with assms show "returned (Client_Do env c ctx query res merge variables)
                 = Some (PayloadDecodeError e)"
    using Do_data [of env query variables buf ctx c req0 resp out d merge res res' "Some e"]
    by simp
qed

text \<open>C5 at a body that is not JSON, and at an envelope whose payload does not fit.\<close>

theorem C5_envelope_decode_error_witness:
  "Client_Do canned_env (canned_client 200 ''200 OK'' body_html) ()
       ''{login,bio}'' (''a'', ''b'') False Mapping.empty
     = \<lparr>returned = Some (EnvelopeDecodeError ''invalid character''), dest = (''a'', ''b''),
        calls = [CallEncode, CallNewRequest, CallTransport (canned_request ''query;''),
                 CallDecode]\<rparr> \<and>
   returned (Client_Do canned_env (canned_client 200 ''200 OK'' body_mismatch) ()
       ''{login,bio}'' (''a'', ''b'') False Mapping.empty)
     = Some (PayloadDecodeError ''cannot unmarshal number into string'')"
  using C5_envelope_decode_error [where env = canned_env
      and c = "canned_client 200 ''200 OK'' body_html" and ctx = "()"
      and query = "''{login,bio}''" and variables = Mapping.empty and buf = "''query;''"
      and ?req0.0 = "\<lparr>Method = ''POST'', URL = ''http://localhost/graphql'', Header = Map.empty,
                   ReqBody = ''query;'', Ctx = ()\<rparr>"
      and resp = "\<lparr>StatusCode = 200, Status = ''200 OK'', Body = body_html\<rparr>"
      and err = "''invalid character''"
      and merge = False and res = "(''a'', ''b'')"]
    C5_envelope_decode_error [where env = canned_env
      and c = "canned_client 200 ''200 OK'' body_mismatch" and ctx = "()"
      and query = "''{login,bio}''" and variables = Mapping.empty and buf = "''query;''"
      and ?req0.0 = "\<lparr>Method = ''POST'', URL = ''http://localhost/graphql'', Header = Map.empty,
                   ReqBody = ''query;'', Ctx = ()\<rparr>"
      and resp = "\<lparr>StatusCode = 200, Status = ''200 OK'', Body = body_mismatch\<rparr>"
      and out = "\<lparr>Data = Some payload_mismatch, Errors = [err_x]\<rparr>"
      and merge = False and res = "(''a'', ''b'')"]
  by (simp add: run_defs canned_defs)

text \<open>
  C6. Every request handed to the transport, by \<^verbatim>\<open>Do\<close>, \<^verbatim>\<open>Query\<close> or \<^verbatim>\<open>Mutate\<close>, has the
  method POST, the client's URL, the header \<^verbatim>\<open>Content-Type: application/json\<close>, and as body
  what the encoder wrote for the object with the member \<^verbatim>\<open>query\<close> holding the document and
  the member \<^verbatim>\<open>variables\<close> holding the bindings, the latter left out when there are none.
\<close>

theorem C6_outbound_request:
  "(r \<in> set (transported (calls (Client_Do env c ctx query res merge variables))) \<longrightarrow>
      Method r = ''POST'' \<and> URL r = url c \<and>
      Header r ''Content-Type'' = Some [''application/json''] \<and>
      json_Encode env
        ((''query'', JString query) #
         (if Mapping.is_empty variables then [] else [(''variables'', JObject variables)]))
        = Inr (ReqBody r)) \<and>
   (r \<in> set (transported (calls (Client_Query env c ctx q variables))) \<longrightarrow>
      Method r = ''POST'' \<and> URL r = url c \<and>
      Header r ''Content-Type'' = Some [''application/json''] \<and>
      json_Encode env
        ((''query'', JString (constructQuery env q variables)) #
         (if Mapping.is_empty variables then [] else [(''variables'', JObject variables)]))
        = Inr (ReqBody r)) \<and>
   (r \<in> set (transported (calls (Client_Mutate env c ctx m variables))) \<longrightarrow>
      Method r = ''POST'' \<and> URL r = url c \<and>
      Header r ''Content-Type'' = Some [''application/json''] \<and>
      json_Encode env
        ((''query'', JString (constructMutation env m variables)) #
         (if Mapping.is_empty variables then [] else [(''variables'', JObject variables)]))
        = Inr (ReqBody r))"
proof -
  have req: "Method r = ''POST'' \<and> URL r = url c \<and>
      Header r ''Content-Type'' = Some [''application/json''] \<and>
      json_Encode env
        ((''query'', JString t) #
         (if Mapping.is_empty variables then [] else [(''variables'', JObject variables)]))
        = Inr (ReqBody r)"
    if "r \<in> set (transported (calls (Client_Do env c ctx t s b variables)))" for t s b
    using Do_transported_request [OF that]
    by (cases "Mapping.is_empty variables") (simp_all add: in_members_def)
  show ?thesis
    unfolding Client_Query_def Client_Mutate_def Let_def
    using req by blast
qed

text \<open>C6 at a call without variables and at a query with one.\<close>

theorem C6_outbound_request_witness:
  "transported (calls (Client_Do canned_env (canned_client 200 ''200 OK'' body_ok) ()
       ''{login,bio}'' (''a'', ''b'') False Mapping.empty))
     = [canned_request ''query;''] \<and>
   json_Encode canned_env [(''query'', JString ''{login,bio}'')] = Inr ''query;'' \<and>
   transported (calls (Client_Query canned_env (canned_client 200 ''200 OK'' body_ok) ()
       (''a'', ''b'') (Mapping.update ''id'' ''42'' Mapping.empty)))
     = [canned_request ''query;variables;''] \<and>
   json_Encode canned_env
       [(''query'', JString ''{login,bio}''),
        (''variables'', JObject (Mapping.update ''id'' ''42'' Mapping.empty))]
     = Inr ''query;variables;'' \<and>
   Method (canned_request ''query;variables;'') = ''POST'' \<and>
   Header (canned_request ''query;variables;'') ''Content-Type'' = Some [''application/json'']"
  using C6_outbound_request [where env = canned_env
      and c = "canned_client 200 ''200 OK'' body_ok" and ctx = "()"
      and query = "''{login,bio}''" and variables = Mapping.empty
      and merge = False and res = "(''a'', ''b'')" and r = "canned_request ''query;''"]
    C6_outbound_request [where env = canned_env
      and c = "canned_client 200 ''200 OK'' body_ok" and ctx = "()"
      and q = "(''a'', ''b'')" and variables = "Mapping.update ''id'' ''42'' Mapping.empty"
      and r = "canned_request ''query;variables;''"]
  by (simp add: run_defs canned_defs)



text \<open>
  C8. \<^verbatim>\<open>Query\<close> and \<^verbatim>\<open>Mutate\<close> are \<^verbatim>\<open>Do\<close> with \<^verbatim>\<open>merge\<close> false, so neither ever calls the merge
  decoder. In \<^verbatim>\<open>Do\<close> the merge decoder is called only when \<^verbatim>\<open>merge\<close> is true and the replace
  decoder only when it is false; with a payload present, \<^verbatim>\<open>merge\<close> true has the merge decoder
  write the destination and \<^verbatim>\<open>merge\<close> false the replace decoder.
\<close>

theorem C8_entry_points_replace:
  "Client_Query env c ctx q variables =
     Client_Do env c ctx (constructQuery env q variables) q False variables \<and>
   Client_Mutate env c ctx m variables =
     Client_Do env c ctx (constructMutation env m variables) m False variables \<and>
   CallMergeUnmarshalGraphQL p \<notin> set (calls (Client_Query env c ctx q variables)) \<and>
   CallMergeUnmarshalGraphQL p \<notin> set (calls (Client_Mutate env c ctx m variables)) \<and>
   (CallMergeUnmarshalGraphQL p \<in> set (calls (Client_Do env c ctx query res merge variables))
      \<longrightarrow> merge) \<and>
   (CallUnmarshalGraphQL p \<in> set (calls (Client_Do env c ctx query res merge variables))
      \<longrightarrow> \<not> merge) \<and>
   (answered env c ctx query variables buf req0 resp \<and> StatusCode resp = StatusOK \<and>
    Decode env (Body resp) = Inr out \<and> Data out = Some d \<longrightarrow>
      calls (Client_Do env c ctx query res True variables) =
        [CallEncode, CallNewRequest, CallTransport (content_type_json req0), CallDecode,
         CallMergeUnmarshalGraphQL d] \<and>
      dest (Client_Do env c ctx query res True variables) =
        fst (MergeUnmarshalGraphQL env d res) \<and>
      calls (Client_Do env c ctx query res False variables) =
        [CallEncode, CallNewRequest, CallTransport (content_type_json req0), CallDecode,
         CallUnmarshalGraphQL d] \<and>
      dest (Client_Do env c ctx query res False variables) =
        fst (UnmarshalGraphQL env d res))"
proof (intro conjI impI)
  show "Client_Query env c ctx q variables =
     Client_Do env c ctx (constructQuery env q variables) q False variables"
    by (simp add: Client_Query_def)
  show "Client_Mutate env c ctx m variables =
     Client_Do env c ctx (constructMutation env m variables) m False variables"
    by (simp add: Client_Mutate_def)
  show "CallMergeUnmarshalGraphQL p \<notin> set (calls (Client_Query env c ctx q variables))"
    using Do_decoder_mode [of p env c ctx "constructQuery env q variables" q False variables]
    by (simp add: Client_Query_def)
  show "CallMergeUnmarshalGraphQL p \<notin> set (calls (Client_Mutate env c ctx m variables))"
    using Do_decoder_mode [of p env c ctx "constructMutation env m variables" m False variables]
    by (simp add: Client_Mutate_def)
next
  assume "CallMergeUnmarshalGraphQL p \<in> set (calls (Client_Do env c ctx query res merge variables))"
  then show merge
    using Do_decoder_mode [of p env c ctx query res merge variables] by simp
next
  assume "CallUnmarshalGraphQL p \<in> set (calls (Client_Do env c ctx query res merge variables))"
  then show "\<not> merge"
    using Do_decoder_mode [of p env c ctx query res merge variables] by simp
next
  assume h: "answered env c ctx query variables buf req0 resp \<and> StatusCode resp = StatusOK \<and>
    Decode env (Body resp) = Inr out \<and> Data out = Some d"
  obtain rm em where m: "MergeUnmarshalGraphQL env d res = (rm, em)"
    by (cases "MergeUnmarshalGraphQL env d res")
  obtain rr er where r: "UnmarshalGraphQL env d res = (rr, er)"
    by (cases "UnmarshalGraphQL env d res")
  from h m have M: "Client_Do env c ctx query res True variables =
           \<lparr>returned = (case em of Some e \<Rightarrow> Some (PayloadDecodeError e)
                         | None \<Rightarrow> errors_or_nil (Errors out)),
            dest = rm,
            calls = [CallEncode, CallNewRequest, CallTransport (content_type_json req0),
                     CallDecode, CallMergeUnmarshalGraphQL d]\<rparr>"
    using Do_merge [of env query variables buf ctx c req0 resp out d res rm em] by simp
  from h r have R: "Client_Do env c ctx query res False variables =
           \<lparr>returned = (case er of Some e \<Rightarrow> Some (PayloadDecodeError e)
                         | None \<Rightarrow> errors_or_nil (Errors out)),
            dest = rr,
            calls = [CallEncode, CallNewRequest, CallTransport (content_type_json req0),
                     CallDecode, CallUnmarshalGraphQL d]\<rparr>"
    using Do_replace [of env query variables buf ctx c req0 resp out d res rr er] by simp
  show "calls (Client_Do env c ctx query res True variables) =
        [CallEncode, CallNewRequest, CallTransport (content_type_json req0), CallDecode,
         CallMergeUnmarshalGraphQL d]"
    by (simp add: M)
  show "dest (Client_Do env c ctx query res True variables) =
        fst (MergeUnmarshalGraphQL env d res)"
    by (simp add: M m)
  show "calls (Client_Do env c ctx query res False variables) =
        [CallEncode, CallNewRequest, CallTransport (content_type_json req0), CallDecode,
         CallUnmarshalGraphQL d]"
    by (simp add: R)
  show "dest (Client_Do env c ctx query res False variables) =
        fst (UnmarshalGraphQL env d res)"
    by (simp add: R r)
qed

text \<open>C8 at a clean response: the replace decoder resets \<^verbatim>\<open>bio\<close>, the merge decoder keeps it.\<close>

theorem C8_entry_points_replace_witness:
  "Client_Query canned_env (canned_client 200 ''200 OK'' body_ok) () (''a'', ''b'') Mapping.empty
     = \<lparr>returned = None, dest = (''octocat'', []),
        calls = [CallEncode, CallNewRequest, CallTransport (canned_request ''query;''),
                 CallDecode, CallUnmarshalGraphQL payload_login]\<rparr> \<and>
   Client_Mutate canned_env (canned_client 200 ''200 OK'' body_ok) () (''a'', ''b'') Mapping.empty
     = \<lparr>returned = None, dest = (''octocat'', []),
        calls = [CallEncode, CallNewRequest, CallTransport (canned_request ''query;''),
                 CallDecode, CallUnmarshalGraphQL payload_login]\<rparr> \<and>
   Client_Do canned_env (canned_client 200 ''200 OK'' body_ok) () ''{login,bio}'' (''a'', ''b'')
       True Mapping.empty
     = \<lparr>returned = None, dest = (''octocat'', ''b''),
        calls = [CallEncode, CallNewRequest, CallTransport (canned_request ''query;''),
                 CallDecode, CallMergeUnmarshalGraphQL payload_login]\<rparr>"
  using C8_entry_points_replace [where env = canned_env
      and c = "canned_client 200 ''200 OK'' body_ok" and ctx = "()"
      and q = "(''a'', ''b'')" and m = "(''a'', ''b'')"
      and query = "''{login,bio}''" and variables = Mapping.empty and buf = "''query;''"
      and ?req0.0 = "\<lparr>Method = ''POST'', URL = ''http://localhost/graphql'', Header = Map.empty,
                   ReqBody = ''query;'', Ctx = ()\<rparr>"
      and resp = "\<lparr>StatusCode = 200, Status = ''200 OK'', Body = body_ok\<rparr>"
      and out = "\<lparr>Data = Some payload_login, Errors = []\<rparr>"
      and d = payload_login and p = payload_login and merge = True and res = "(''a'', ''b'')"]
  by (simp add: run_defs canned_defs)

text \<open>
  C9. With an envelope in hand: when the payload is present and its decoder fails, \<^verbatim>\<open>Do\<close>
  returns the decoder's error and not the envelope's list of errors, whatever that list
  holds. The list is returned as the error only when there was no payload or its decoder
  returned nil.
\<close>

theorem C9_decode_error_hides_protocol_errors:
  assumes "answered env c ctx query variables buf req0 resp"
    and "StatusCode resp = StatusOK"
    and "Decode env (Body resp) = Inr out"
  shows "(Data out = Some d \<and>
          (if merge then MergeUnmarshalGraphQL env d res else UnmarshalGraphQL env d res)
            = (res', Some e) \<longrightarrow>
            returned (Client_Do env c ctx query res merge variables)
              = Some (PayloadDecodeError e) \<and>
            returned (Client_Do env c ctx query res merge variables)
              \<noteq> Some (ProtocolErrors (Errors out)) \<and>
            dest (Client_Do env c ctx query res merge variables) = res') \<and>
         (returned (Client_Do env c ctx query res merge variables) = Some (ProtocolErrors es) \<longrightarrow>
            es = Errors out \<and>
            (case Data out of
               None \<Rightarrow> True
             | Some p \<Rightarrow>
                 snd (if merge then MergeUnmarshalGraphQL env p res
                      else UnmarshalGraphQL env p res) = None))"
proof (intro conjI impI)
  assume h: "Data out = Some d \<and>
          (if merge then MergeUnmarshalGraphQL env d res else UnmarshalGraphQL env d res)
            = (res', Some e)"
  with assms have D: "Client_Do env c ctx query res merge variables =
           \<lparr>returned = Some (PayloadDecodeError e), dest = res',
            calls = [CallEncode, CallNewRequest, CallTransport (content_type_json req0),
                     CallDecode,
                     if merge then CallMergeUnmarshalGraphQL d else CallUnmarshalGraphQL d]\<rparr>"
    using Do_data [of env query variables buf ctx c req0 resp out d merge res res' "Some e"]
    by simp
  show "returned (Client_Do env c ctx query res merge variables) = Some (PayloadDecodeError e)"
    by (simp add: D)
  show "returned (Client_Do env c ctx query res merge variables)
              \<noteq> Some (ProtocolErrors (Errors out))"
    by (simp add: D)
  show "dest (Client_Do env c ctx query res merge variables) = res'"
    by (simp add: D)
next
  assume a: "returned (Client_Do env c ctx query res merge variables) = Some (ProtocolErrors es)"
  have "es = Errors out \<and>
            (case Data out of
               None \<Rightarrow> True
             | Some p \<Rightarrow>
                 snd (if merge then MergeUnmarshalGraphQL env p res
                      else UnmarshalGraphQL env p res) = None)"
  proof (cases "Data out")
    case None
    with assms a show ?thesis
      using Do_no_data [of env query variables buf ctx c req0 resp out res merge]
      by (simp add: errors_or_nil_def split: if_splits)
  next
    case (Some p)
    obtain r' derr where
      r: "(if merge then MergeUnmarshalGraphQL env p res else UnmarshalGraphQL env p res) = (r', derr)"
      by (cases "if merge then MergeUnmarshalGraphQL env p res else UnmarshalGraphQL env p res")
    with assms a Some show ?thesis
      using Do_data [of env query variables buf ctx c req0 resp out p merge res r' derr]
      by (cases derr) (simp_all add: errors_or_nil_def split: if_splits)
  qed
  then show "es = Errors out"
    and "(case Data out of
               None \<Rightarrow> True
             | Some p \<Rightarrow>
                 snd (if merge then MergeUnmarshalGraphQL env p res
                      else UnmarshalGraphQL env p res) = None)"
    by simp_all
qed

text \<open>C9 at an envelope with a payload that does not fit and one error, and at a partial success.\<close>

theorem C9_decode_error_hides_protocol_errors_witness:
  "Errors \<lparr>Data = Some payload_mismatch, Errors = [err_x]\<rparr> = [err_x] \<and>
   returned (Client_Do canned_env (canned_client 200 ''200 OK'' body_mismatch) ()
       ''{login,bio}'' (''a'', ''b'') False Mapping.empty)
     = Some (PayloadDecodeError ''cannot unmarshal number into string'') \<and>
   dest (Client_Do canned_env (canned_client 200 ''200 OK'' body_mismatch) ()
       ''{login,bio}'' (''a'', ''b'') False Mapping.empty) = (''a'', ''b'') \<and>
   returned (Client_Do canned_env (canned_client 200 ''200 OK'' body_partial) ()
       ''{login,bio}'' (''a'', ''b'') False Mapping.empty)
     = Some (ProtocolErrors [err_x, err_y]) \<and>
   snd (UnmarshalGraphQL canned_env payload_login (''a'', ''b'')) = None"
  using C9_decode_error_hides_protocol_errors [where env = canned_env
      and c = "canned_client 200 ''200 OK'' body_mismatch" and ctx = "()"
      and query = "''{login,bio}''" and variables = Mapping.empty and buf = "''query;''"
      and ?req0.0 = "\<lparr>Method = ''POST'', URL = ''http://localhost/graphql'', Header = Map.empty,
                   ReqBody = ''query;'', Ctx = ()\<rparr>"
      and resp = "\<lparr>StatusCode = 200, Status = ''200 OK'', Body = body_mismatch\<rparr>"
      and out = "\<lparr>Data = Some payload_mismatch, Errors = [err_x]\<rparr>"
      and d = payload_mismatch and merge = False and res = "(''a'', ''b'')"
      and res' = "(''a'', ''b'')" and e = "''cannot unmarshal number into string''"]
    C9_decode_error_hides_protocol_errors [where env = canned_env
      and c = "canned_client 200 ''200 OK'' body_partial" and ctx = "()"
      and query = "''{login,bio}''" and variables = Mapping.empty and buf = "''query;''"
      and ?req0.0 = "\<lparr>Method = ''POST'', URL = ''http://localhost/graphql'', Header = Map.empty,
                   ReqBody = ''query;'', Ctx = ()\<rparr>"
      and resp = "\<lparr>StatusCode = 200, Status = ''200 OK'', Body = body_partial\<rparr>"
      and out = "\<lparr>Data = Some payload_login, Errors = [err_x, err_y]\<rparr>"
      and merge = False and res = "(''a'', ''b'')" and es = "[err_x, err_y]"]
  by (simp add: run_defs canned_defs)

text \<open>
  C10. When the envelope has no data payload (the key is missing or holds JSON null),
  \<^verbatim>\<open>Do\<close> calls no payload decoder, the destination is as it was, and \<^verbatim>\<open>Do\<close> returns the list
  of errors when it has an element and nil when it has none.
\<close>

theorem C10_no_data_no_decoding:
  assumes "answered env c ctx query variables buf req0 resp"
    and "StatusCode resp = StatusOK"
    and "Decode env (Body resp) = Inr out"
    and "Data out = None"
  shows "dest (Client_Do env c ctx query res merge variables) = res \<and>
         calls (Client_Do env c ctx query res merge variables) =
           [CallEncode, CallNewRequest, CallTransport (content_type_json req0), CallDecode] \<and>
         returned (Client_Do env c ctx query res merge variables) =
           (if Errors out \<noteq> [] then Some (ProtocolErrors (Errors out)) else None)"
  using assms Do_no_data [of env query variables buf ctx c req0 resp out res merge]
  by (simp add: errors_or_nil_def)

text \<open>C10 at an envelope of errors only, and at \<^verbatim>\<open>data\<close> null without errors.\<close>

theorem C10_no_data_no_decoding_witness:
  "Client_Do canned_env (canned_client 200 ''200 OK'' body_errors_only) ()
       ''{login,bio}'' (''a'', ''b'') False Mapping.empty
     = \<lparr>returned = Some (ProtocolErrors [err_x, err_y]), dest = (''a'', ''b''),
        calls = [CallEncode, CallNewRequest, CallTransport (canned_request ''query;''),
                 CallDecode]\<rparr> \<and>
   Client_Do canned_env (canned_client 200 ''200 OK'' body_null_data) ()
       ''{login,bio}'' (''a'', ''b'') True Mapping.empty
     = \<lparr>returned = None, dest = (''a'', ''b''),
        calls = [CallEncode, CallNewRequest, CallTransport (canned_request ''query;''),
                 CallDecode]\<rparr>"
  using C10_no_data_no_decoding [where env = canned_env
      and c = "canned_client 200 ''200 OK'' body_errors_only" and ctx = "()"
      and query = "''{login,bio}''" and variables = Mapping.empty and buf = "''query;''"
      and ?req0.0 = "\<lparr>Method = ''POST'', URL = ''http://localhost/graphql'', Header = Map.empty,
                   ReqBody = ''query;'', Ctx = ()\<rparr>"
      and resp = "\<lparr>StatusCode = 200, Status = ''200 OK'', Body = body_errors_only\<rparr>"
      and out = "\<lparr>Data = None, Errors = [err_x, err_y]\<rparr>"
      and merge = False and res = "(''a'', ''b'')"]
    C10_no_data_no_decoding [where env = canned_env
      and c = "canned_client 200 ''200 OK'' body_null_data" and ctx = "()"
      and query = "''{login,bio}''" and variables = Mapping.empty and buf = "''query;''"
      and ?req0.0 = "\<lparr>Method = ''POST'', URL = ''http://localhost/graphql'', Header = Map.empty,
                   ReqBody = ''query;'', Ctx = ()\<rparr>"
      and resp = "\<lparr>StatusCode = 200, Status = ''200 OK'', Body = body_null_data\<rparr>"
      and out = "\<lparr>Data = None, Errors = []\<rparr>"
      and merge = True and res = "(''a'', ''b'')"]
  by (simp add: run_defs canned_defs)

end
